theory Spec2Isabelle
  imports Complex_Main "HOL-Library.Product_Lexorder" "HOL-Library.Multiset"
begin

section \<open>Data model of the battle core\<close>

text \<open>
  Python objects are shared by reference: the action queue, the damage map, the rosters
  and the battlefield all point at the same monsters. Every object is therefore a
  reference (a number) into a heap of the combat state, and the identity test
  \<^verbatim>\<open>is\<close> of the source is equality of references.

  Numbers: \<^verbatim>\<open>int\<close> is \<^typ>\<open>int\<close>. The value of a \<^verbatim>\<open>float\<close> is an exact
  rational, and comparisons of floats are comparisons of these values. The source
  multiplies floats in two places: the product in \<^verbatim>\<open>need_potion\<close>, whose rounding
  is worked out there, and the product in \<^verbatim>\<open>CurrentHitPointsCondition.test\<close>, whose
  rounded result is a parameter.

  Rendering, sound, message text and scheduled animation tasks are outside the battle
  core and are left out of the state.
\<close>

type_synonym monster_ref = nat
type_synonym npc_ref = nat
type_synonym technique_ref = nat
type_synonym item_ref = nat
type_synonym condition_ref = nat

datatype py_error = IndexError | KeyError | ValueError | ZeroDivisionError | AssertionError

record Monster =
  current_hp :: int
  hp :: int
  level :: int
  total_experience :: int
  experience_modifier :: int
  money_modifier :: int
  status :: "condition_ref list"
  moves :: "technique_ref list"
  max_moves :: int

text \<open>\<^verbatim>\<open>game_variables\<close> is a dictionary of untyped values; the core stores a float
  (\<^verbatim>\<open>random_tech_hit\<close>) and a string (\<^verbatim>\<open>action_tech\<close>) in it.\<close>

datatype game_value = Number rat | Text string

record NPC =
  monsters :: "monster_ref list"
  items :: "item_ref list"
  max_position :: int
  isplayer :: bool
  game_variables :: "string \<rightharpoonup> game_value"

record Technique =
  tech_slug :: string
  tech_sort :: string
  accuracy :: rat
  next_use :: int
  tech_range :: string
  tech_hit :: bool

record Item =
  item_sort :: string
  category :: string

record Condition =
  cond_slug :: string
  cond_sort :: string
  nr_turn :: int

text \<open>\<^verbatim>\<open>EnqueuedAction\<close> is a named tuple: two actions are equal when their three
  components are the same objects.\<close>

datatype user_ref = MonsterUser monster_ref | NPCUser npc_ref

datatype payload_ref = TechniqueRef technique_ref | ItemRef item_ref | ConditionRef condition_ref

datatype EnqueuedAction =
  EnqueuedAction (user: "user_ref option") (technique: "payload_ref option") (target: monster_ref)

datatype CombatPhase =
  Begin | Ready | Housekeeping_phase | Decision_phase | Pre_action_phase | Action_phase
  | Post_action_phase | Resolve_match | Ran_away | Draw_match | Has_winner | End_combat

text \<open>
  The combat state. \<^verbatim>\<open>players\<close> is a pair. \<^verbatim>\<open>monsters_in_play\<close> is a dictionary
  from players to lists (kept in insertion order, a missing player reads as the empty
  list). \<^verbatim>\<open>_damage_map\<close> maps a target to the set of its attackers; the set is kept as
  a list without repetitions, in the order of insertion, which fixes one of the orders
  in which Python may iterate over it. \<open>next_technique\<close> and \<open>next_condition\<close> are the
  references the next newly constructed \<^verbatim>\<open>Technique()\<close> and \<^verbatim>\<open>Condition()\<close> receive.
\<close>

record CombatState =
  players :: "npc_ref \<times> npc_ref"
  npc_heap :: "npc_ref \<Rightarrow> NPC"
  monster_heap :: "monster_ref \<Rightarrow> Monster"
  technique_heap :: "technique_ref \<Rightarrow> Technique"
  item_heap :: "item_ref \<Rightarrow> Item"
  condition_heap :: "condition_ref \<Rightarrow> Condition"
  next_technique :: technique_ref
  next_condition :: condition_ref
  monsters_in_play :: "(npc_ref \<times> monster_ref list) list"
  action_queue :: "EnqueuedAction list"
  log_action :: "(int \<times> EnqueuedAction) list"
  damage_map :: "monster_ref \<rightharpoonup> monster_ref list"
  turn :: int
  prize :: int
  run :: bool
  is_trainer_battle :: bool

definition players_list :: "CombatState \<Rightarrow> npc_ref list" where
  "players_list s = [fst (players s), snd (players s)]"

definition in_play :: "CombatState \<Rightarrow> npc_ref \<Rightarrow> monster_ref list" where
  "in_play s player = (case map_of (monsters_in_play s) player of None \<Rightarrow> [] | Some party \<Rightarrow> party)"

definition update_monster :: "monster_ref \<Rightarrow> (Monster \<Rightarrow> Monster) \<Rightarrow> CombatState \<Rightarrow> CombatState" where
  "update_monster m f s = s\<lparr>monster_heap := (monster_heap s)(m := f (monster_heap s m))\<rparr>"

definition update_npc :: "npc_ref \<Rightarrow> (NPC \<Rightarrow> NPC) \<Rightarrow> CombatState \<Rightarrow> CombatState" where
  "update_npc p f s = s\<lparr>npc_heap := (npc_heap s)(p := f (npc_heap s p))\<rparr>"

definition update_technique :: "technique_ref \<Rightarrow> (Technique \<Rightarrow> Technique) \<Rightarrow> CombatState \<Rightarrow> CombatState" where
  "update_technique t f s = s\<lparr>technique_heap := (technique_heap s)(t := f (technique_heap s t))\<rparr>"

definition update_condition :: "condition_ref \<Rightarrow> (Condition \<Rightarrow> Condition) \<Rightarrow> CombatState \<Rightarrow> CombatState" where
  "update_condition c f s = s\<lparr>condition_heap := (condition_heap s)(c := f (condition_heap s c))\<rparr>"

subsection \<open>Helpers of tuxemon.combat\<close>

text \<open>
  Modelled from the spec: \<^verbatim>\<open>alive_party\<close> and \<^verbatim>\<open>defeated\<close> of the module
  \<^verbatim>\<open>tuxemon.combat\<close> are imported by combat.py and are not among the sources. The
  spec: a party is "defeated" when it has no Combatant with health > 0.
\<close>

definition alive_party :: "CombatState \<Rightarrow> npc_ref \<Rightarrow> monster_ref list" where
  "alive_party s player =
     filter (\<lambda>m. current_hp (monster_heap s m) > 0) (monsters (npc_heap s player))"

definition defeated :: "CombatState \<Rightarrow> npc_ref \<Rightarrow> bool" where
  "defeated s player = (alive_party s player = [])"

text \<open>
  Modelled from the spec: \<^verbatim>\<open>has_status\<close> of \<^verbatim>\<open>tuxemon.combat\<close> is not among the
  sources. The spec: a Combatant carries a condition (the "fainted" condition) in its
  status slot; the condition is recognised by its name.
\<close>

definition has_status :: "CombatState \<Rightarrow> monster_ref \<Rightarrow> string \<Rightarrow> bool" where
  "has_status s m slug =
     (slug \<in> set (map (\<lambda>c. cond_slug (condition_heap s c)) (status (monster_heap s m))))"

section \<open>The phase state machine (combat.py)\<close>

definition active_monsters :: "CombatState \<Rightarrow> monster_ref list" where
  "active_monsters s = concat (map snd (monsters_in_play s))"

definition remaining_players :: "CombatState \<Rightarrow> npc_ref list" where
  "remaining_players s = filter (\<lambda>p. \<not> defeated s p) (players_list s)"

text \<open>
  The loop of the branch \<^verbatim>\<open>"housekeeping phase"\<close> of \<^verbatim>\<open>determine_phase\<close>, over
  \<^verbatim>\<open>self.active_players\<close> (the players that are not defeated, tested as the generator
  reaches them):
  \<^verbatim>\<open>
  for player in self.active_players:
      if len(alive_party(player)) == 1:
          player.max_position = 1
      positions_available = player.max_position - len(self.monsters_in_play[player])
      if positions_available:
          return None
  return "decision phase"
  \<close>
\<close>

fun housekeeping_positions :: "CombatState \<Rightarrow> npc_ref list \<Rightarrow> CombatPhase option \<times> CombatState" where
  "housekeeping_positions s [] = (Some Decision_phase, s)"
| "housekeeping_positions s (player # rest) =
     (if defeated s player then housekeeping_positions s rest
      else
        (let s1 = (if length (alive_party s player) = 1
                   then update_npc player (\<lambda>n. n\<lparr>max_position := 1\<rparr>) s else s);
             positions_available =
               max_position (npc_heap s1 player) - int (length (in_play s1 player))
         in if positions_available \<noteq> 0 then (None, s1)
            else housekeeping_positions s1 rest))"

text \<open>
  \<^verbatim>\<open>determine_phase\<close>. The phase is \<^verbatim>\<open>Optional[CombatPhase]\<close>; the final
  \<^verbatim>\<open>assert_never\<close> branch is for values outside the type. The result is the value
  returned together with the combat state the call leaves behind.
\<close>

fun determine_phase :: "CombatState \<Rightarrow> CombatPhase option \<Rightarrow> CombatPhase option \<times> CombatState" where
  "determine_phase s None = (None, s)"
| "determine_phase s (Some Begin) = (None, s)"
| "determine_phase s (Some Ready) = (Some Housekeeping_phase, s)"
| "determine_phase s (Some Housekeeping_phase) = housekeeping_positions s (players_list s)"
| "determine_phase s (Some Decision_phase) =
     (if length (remaining_players s) = 1 then (Some Ran_away, s)
      else if length (action_queue s) = length (active_monsters s) then (Some Pre_action_phase, s)
      else (None, s))"
| "determine_phase s (Some Pre_action_phase) = (Some Action_phase, s)"
| "determine_phase s (Some Action_phase) =
     (if action_queue s = [] then (Some Post_action_phase, s) else (None, s))"
| "determine_phase s (Some Post_action_phase) =
     (if action_queue s = [] then (Some Resolve_match, s) else (None, s))"
| "determine_phase s (Some Resolve_match) =
     (let remaining = length (remaining_players s)
      in if remaining = 0 then (Some Draw_match, s)
         else if remaining = 1 then (if run s then (Some Ran_away, s) else (Some Has_winner, s))
         else (Some Housekeeping_phase, s))"
| "determine_phase s (Some Ran_away) = (Some End_combat, s)"
| "determine_phase s (Some Draw_match) = (Some End_combat, s)"
| "determine_phase s (Some Has_winner) = (Some End_combat, s)"
| "determine_phase s (Some End_combat) = (None, s)"

section \<open>The action queue (combat.py)\<close>

definition enqueue_action ::
  "user_ref option \<Rightarrow> payload_ref option \<Rightarrow> monster_ref \<Rightarrow> CombatState \<Rightarrow> CombatState" where
  "enqueue_action usr tech tgt s =
     (let action = EnqueuedAction usr tech tgt
      in s\<lparr>action_queue := action_queue s @ [action],
           log_action := log_action s @ [(turn s, action)]\<rparr>)"

subsection \<open>Sorting\<close>

definition sort_order :: "string list" where
  "sort_order = [''meta'', ''item'', ''utility'', ''potion'', ''food'', ''heal'', ''damage'']"

text \<open>\<^verbatim>\<open>list.index\<close>: the position of the first occurrence, ValueError when there is none.\<close>

fun index_of :: "'a list \<Rightarrow> 'a \<Rightarrow> py_error + nat" where
  "index_of [] x = Inl ValueError"
| "index_of (y # ys) x =
     (if y = x then Inr 0
      else case index_of ys x of Inl e \<Rightarrow> Inl e | Inr i \<Rightarrow> Inr (Suc i))"

definition payload_sort :: "CombatState \<Rightarrow> payload_ref \<Rightarrow> string" where
  "payload_sort s p =
     (case p of
        TechniqueRef t \<Rightarrow> tech_sort (technique_heap s t)
      | ItemRef i \<Rightarrow> item_sort (item_heap s i)
      | ConditionRef c \<Rightarrow> cond_sort (condition_heap s c))"

text \<open>
  \<^verbatim>\<open>rank_action\<close>, the sort key. \<^verbatim>\<open>speed_test\<close> is a method of \<^verbatim>\<open>Monster\<close> and
  \<^verbatim>\<open>NPC\<close> that is not among the sources; it is a parameter, the speed value computed
  for a user and an action in this round. \<^verbatim>\<open>assert action.user\<close> fails on \<^verbatim>\<open>None\<close>.
\<close>

definition rank_action ::
  "(user_ref \<Rightarrow> EnqueuedAction \<Rightarrow> int) \<Rightarrow> CombatState \<Rightarrow> EnqueuedAction \<Rightarrow> py_error + (nat \<times> int)" where
  "rank_action speed_test s action =
     (case technique action of
        None \<Rightarrow> Inr (0, 0)
      | Some t \<Rightarrow>
          (let sort = payload_sort s t
           in case index_of sort_order sort of
                Inl e \<Rightarrow> Inl e
              | Inr primary_order \<Rightarrow>
                  if sort = ''meta'' then Inr (primary_order, 0)
                  else if sort = ''potion'' then Inr (primary_order, 0)
                  else (case user action of
                          None \<Rightarrow> Inl AssertionError
                        | Some u \<Rightarrow> Inr (primary_order, speed_test u action))))"

text \<open>The keys of the whole list are computed before anything is moved; an error of
  the key function leaves the list as it was.\<close>

fun rank_all ::
  "(user_ref \<Rightarrow> EnqueuedAction \<Rightarrow> int) \<Rightarrow> CombatState \<Rightarrow> EnqueuedAction list
     \<Rightarrow> py_error + ((nat \<times> int) \<times> EnqueuedAction) list" where
  "rank_all speed_test s [] = Inr []"
| "rank_all speed_test s (a # as) =
     (case rank_action speed_test s a of
        Inl e \<Rightarrow> Inl e
      | Inr k \<Rightarrow>
          (case rank_all speed_test s as of
             Inl e \<Rightarrow> Inl e
           | Inr ks \<Rightarrow> Inr ((k, a) # ks)))"

text \<open>
  \<^verbatim>\<open>list.sort(key=rank_action, reverse=True)\<close>: a stable sort into descending order
  of the keys, tuples compared lexicographically. Stability under \<^verbatim>\<open>reverse=True\<close>
  means that elements with equal keys keep their original order; it is the stable
  ascending sort of the reversed list, reversed.
\<close>

definition sort_reverse :: "('k::linorder \<times> 'a) list \<Rightarrow> ('k \<times> 'a) list" where
  "sort_reverse keyed = rev (sort_key fst (rev keyed))"

definition sort_action_queue ::
  "(user_ref \<Rightarrow> EnqueuedAction \<Rightarrow> int) \<Rightarrow> CombatState \<Rightarrow> py_error + CombatState" where
  "sort_action_queue speed_test s =
     (case rank_all speed_test s (action_queue s) of
        Inl e \<Rightarrow> Inl e
      | Inr keyed \<Rightarrow> Inr (s\<lparr>action_queue := map snd (sort_reverse keyed)\<rparr>))"

subsection \<open>Taking an action from the queue\<close>

text \<open>
  \<^verbatim>\<open>handle_action_queue\<close>: \<^verbatim>\<open>action = self._action_queue.pop()\<close> takes the last
  element, and \<^verbatim>\<open>perform_action(*action)\<close> performs it. The result is the action handed
  to \<^verbatim>\<open>perform_action\<close> (none when the queue is empty) and the state with the action
  taken off the queue.
\<close>

definition handle_action_queue :: "CombatState \<Rightarrow> EnqueuedAction option \<times> CombatState" where
  "handle_action_queue s =
     (if action_queue s \<noteq> []
      then (Some (last (action_queue s)), s\<lparr>action_queue := butlast (action_queue s)\<rparr>)
      else (None, s))"

text \<open>The order in which a queue that nothing else touches is executed: one
  \<^verbatim>\<open>pop()\<close> per tick until it is empty.\<close>

function pop_order :: "'a list \<Rightarrow> 'a list" where
  "pop_order q = (if q = [] then [] else last q # pop_order (butlast q))"
  by pat_completeness auto
termination
  by (relation "measure length") auto

subsection \<open>Rewriting and removing\<close>

text \<open>
  \<^verbatim>\<open>
  for index, action in enumerate(self._action_queue):
      if action.target is original:
          new_action = EnqueuedAction(action.user, action.technique, new)
          self._action_queue[index] = new_action
  \<close>
\<close>

definition rewrite_step :: "monster_ref \<Rightarrow> monster_ref \<Rightarrow> nat \<Rightarrow> EnqueuedAction list \<Rightarrow> EnqueuedAction list" where
  "rewrite_step original new index q =
     (let action = q ! index
      in if target action = original
         then q[index := EnqueuedAction (user action) (technique action) new]
         else q)"

definition rewrite_action_queue_target :: "monster_ref \<Rightarrow> monster_ref \<Rightarrow> CombatState \<Rightarrow> CombatState" where
  "rewrite_action_queue_target original new s =
     s\<lparr>action_queue :=
         fold (rewrite_step original new) [0..<length (action_queue s)] (action_queue s)\<rparr>"

text \<open>
  \<^verbatim>\<open>
  to_remove = set()
  for action in self._action_queue:
      if action.user is monster or action.target is monster:
          to_remove.add(action)
  for action in to_remove:
      self._action_queue.remove(action)
  \<close>
  The set holds each equal action once (\<^const>\<open>remdups\<close>), and \<^verbatim>\<open>list.remove\<close> deletes
  the first element equal to its argument (\<^const>\<open>remove1\<close>). Every element of the set
  occurs in the queue, so \<^verbatim>\<open>list.remove\<close> cannot raise here.
\<close>

definition remove_monster_actions_from_queue :: "monster_ref \<Rightarrow> CombatState \<Rightarrow> CombatState" where
  "remove_monster_actions_from_queue monster s =
     (let to_remove =
            remdups (filter (\<lambda>action. user action = Some (MonsterUser monster) \<or> target action = monster)
                       (action_queue s))
      in s\<lparr>action_queue := fold remove1 to_remove (action_queue s)\<rparr>)"

section \<open>Fainting and experience (combat.py)\<close>

text \<open>
  The body of the loop over \<^verbatim>\<open>self._damage_map[monster]\<close> in \<^verbatim>\<open>faint_monster\<close>.
  \<^verbatim>\<open>give_experience\<close> (a method of \<^verbatim>\<open>Monster\<close>) and \<^verbatim>\<open>check_moves\<close> (of
  \<^verbatim>\<open>tuxemon.combat\<close>) are not among the sources and are parameters: what they do to
  the monster they are called on.
\<close>

definition grant ::
  "(int \<Rightarrow> Monster \<Rightarrow> Monster) \<Rightarrow> (Monster \<Rightarrow> int \<Rightarrow> Monster) \<Rightarrow> bool \<Rightarrow> int \<Rightarrow> Monster \<Rightarrow> Monster" where
  "grant give_experience check_moves in_party awarded_exp winner =
     (let level_before = level winner;
          winner1 = give_experience awarded_exp winner;
          level_after = level winner1
      in if level_before \<noteq> level_after
         then (let diff = level_after - level_before
               in if in_party then check_moves winner1 diff else winner1)
         else winner1)"

definition award ::
  "(int \<Rightarrow> Monster \<Rightarrow> Monster) \<Rightarrow> (Monster \<Rightarrow> int \<Rightarrow> Monster) \<Rightarrow> int \<Rightarrow> int
     \<Rightarrow> monster_ref \<Rightarrow> CombatState \<Rightarrow> CombatState" where
  "award give_experience check_moves awarded_exp awarded_mon winners s =
     (let in_party = (winners \<in> set (monsters (npc_heap s (fst (players s)))));
          s1 = update_monster winners (grant give_experience check_moves in_party awarded_exp) s
      in if is_trainer_battle s1 then s1\<lparr>prize := prize s1 + awarded_mon\<rparr> else s1)"

text \<open>
  \<^verbatim>\<open>faint_monster\<close>. \<^verbatim>\<open>Condition().load("faint")\<close> reads the condition from the
  database, a parameter. The floor division raises ZeroDivisionError on a zero
  divisor (\<open>div\<close> of HOL would return 0).
\<close>

definition faint_monster ::
  "(int \<Rightarrow> Monster \<Rightarrow> Monster) \<Rightarrow> (Monster \<Rightarrow> int \<Rightarrow> Monster) \<Rightarrow> (string \<Rightarrow> Condition)
     \<Rightarrow> monster_ref \<Rightarrow> CombatState \<Rightarrow> py_error + CombatState" where
  "faint_monster give_experience check_moves load_condition monster s =
     (let faint = next_condition s;
          s1 = s\<lparr>condition_heap := (condition_heap s)(faint := load_condition ''faint''),
                 next_condition := Suc faint\<rparr>;
          s2 = update_monster monster (\<lambda>m. m\<lparr>current_hp := 0\<rparr>) s1;
          s3 = (case status (monster_heap s2 monster) of
                  [] \<Rightarrow> s2
                | c # _ \<Rightarrow> update_condition c (\<lambda>cond. cond\<lparr>nr_turn := 0\<rparr>) s2);
          s4 = update_monster monster (\<lambda>m. m\<lparr>status := [faint]\<rparr>) s3
      in case damage_map s4 monster of
           None \<Rightarrow> Inr s4
         | Some contributors \<Rightarrow>
             (let m = monster_heap s4 monster;
                  divisor = level m * int (length contributors)
              in if divisor = 0 then Inl ZeroDivisionError
                 else
                   (let awarded_exp = (total_experience m div divisor) * experience_modifier m;
                        awarded_mon = level m * money_modifier m;
                        s5 = fold (award give_experience check_moves awarded_exp awarded_mon)
                               contributors s4
                    in Inr (s5\<lparr>damage_map := (damage_map s5)(monster := None)\<rparr>))))"

text \<open>
  \<^verbatim>\<open>check_party_hp\<close>, one monster of one party. \<^verbatim>\<open>monster.status[0].use(monster)\<close>
  runs the code of a condition, which is not among the sources: the parameter
  \<open>use_status\<close> is what it does to the combat state.
\<close>

definition check_monster_hp ::
  "(condition_ref \<Rightarrow> monster_ref \<Rightarrow> CombatState \<Rightarrow> CombatState)
     \<Rightarrow> (int \<Rightarrow> Monster \<Rightarrow> Monster) \<Rightarrow> (Monster \<Rightarrow> int \<Rightarrow> Monster) \<Rightarrow> (string \<Rightarrow> Condition)
     \<Rightarrow> monster_ref \<Rightarrow> CombatState \<Rightarrow> py_error + CombatState" where
  "check_monster_hp use_status give_experience check_moves load_condition monster s =
     (let s1 = (case status (monster_heap s monster) of
                  [] \<Rightarrow> s
                | c # _ \<Rightarrow> use_status c monster s)
      in if current_hp (monster_heap s1 monster) \<le> 0 \<and> \<not> has_status s1 monster ''faint''
         then faint_monster give_experience check_moves load_condition monster
                (remove_monster_actions_from_queue monster s1)
         else Inr s1)"

fun check_monsters ::
  "(monster_ref \<Rightarrow> CombatState \<Rightarrow> py_error + CombatState) \<Rightarrow> monster_ref list \<Rightarrow> CombatState
     \<Rightarrow> py_error + CombatState" where
  "check_monsters body [] s = Inr s"
| "check_monsters body (monster # rest) s =
     (case body monster s of Inl e \<Rightarrow> Inl e | Inr s1 \<Rightarrow> check_monsters body rest s1)"

definition check_party_hp ::
  "(condition_ref \<Rightarrow> monster_ref \<Rightarrow> CombatState \<Rightarrow> CombatState)
     \<Rightarrow> (int \<Rightarrow> Monster \<Rightarrow> Monster) \<Rightarrow> (Monster \<Rightarrow> int \<Rightarrow> Monster) \<Rightarrow> (string \<Rightarrow> Condition)
     \<Rightarrow> CombatState \<Rightarrow> py_error + CombatState" where
  "check_party_hp use_status give_experience check_moves load_condition s =
     check_monsters (check_monster_hp use_status give_experience check_moves load_condition)
       (active_monsters s) s"

section \<open>The decision maker (ai.py)\<close>

text \<open>
  An \<^verbatim>\<open>AI\<close> object holds the combat state, \<^verbatim>\<open>human = combat.players[0]\<close>,
  \<^verbatim>\<open>user = combat.players[1]\<close>, the deciding monster and
  \<^verbatim>\<open>opponents = combat.monsters_in_play[human]\<close>; its methods are functions of the
  combat state and the monster.
\<close>

definition human :: "CombatState \<Rightarrow> npc_ref" where
  "human s = fst (players s)"

definition ai_user :: "CombatState \<Rightarrow> npc_ref" where
  "ai_user s = snd (players s)"

definition opponents :: "CombatState \<Rightarrow> monster_ref list" where
  "opponents s = in_play s (human s)"

text \<open>Python's \<^verbatim>\<open>round(x)\<close> on a float rounds to the nearest integer and, when \<open>x\<close> is
  exactly half way, to the even neighbour.\<close>

definition py_round :: "rat \<Rightarrow> int" where
  "py_round x =
     (let f = \<lfloor>x\<rfloor>; d = x - of_int f
      in if d < 1 / 2 then f else if 1 / 2 < d then f + 1
         else if even f then f else f + 1)"

text \<open>
  \<^verbatim>\<open>need_potion\<close>: \<^verbatim>\<open>current_hp > 1 and current_hp <= round(hp * 0.15)\<close>.
  The product is a float product in the source. For an integer \<open>hp\<close> the exact value
  \<open>3 * hp / 20\<close> is either exactly half way between two integers, and then the double
  product is that same representable number (the relative error of the double
  \<^verbatim>\<open>0.15\<close> is below half a unit in the last place), or at least \<open>1 / 20\<close> away
  from every half-way point, far more than the rounding error of the product. So
  \<^verbatim>\<open>round\<close> of the double product is \<^const>\<open>py_round\<close> of the exact product.
\<close>

definition need_potion :: "Monster \<Rightarrow> bool" where
  "need_potion monster =
     (if current_hp monster > 1 \<and>
         current_hp monster \<le> py_round (of_int (hp monster) * (15 / 100))
      then True else False)"

text \<open>\<^verbatim>\<open>max\<close> of a non-empty list.\<close>

fun py_max :: "int list \<Rightarrow> int" where
  "py_max [] = 0"
| "py_max (x # xs) = fold max xs x"

text \<open>
  \<^verbatim>\<open>check_strongest\<close>: the comprehension evaluates \<^verbatim>\<open>max\<close> once per monster of the
  roster, so never on an empty list; \<^verbatim>\<open>strongest[0]\<close> raises IndexError when the
  roster is empty.
\<close>

definition check_strongest :: "CombatState \<Rightarrow> monster_ref \<Rightarrow> py_error + bool" where
  "check_strongest s monster =
     (let roster = monsters (npc_heap s (ai_user s));
          strongest =
            filter (\<lambda>m. level (monster_heap s m) = py_max (map (\<lambda>m. level (monster_heap s m)) roster))
              roster
      in case strongest of
           [] \<Rightarrow> Inl IndexError
         | strong # _ \<Rightarrow>
             Inr (if level (monster_heap s strong) = level (monster_heap s monster)
                  then True else False))"

text \<open>The slice \<^verbatim>\<open>xs[i:]\<close>: a negative start counts from the end, and the start is
  clamped to the list.\<close>

definition slice_from :: "'a list \<Rightarrow> int \<Rightarrow> 'a list" where
  "slice_from xs i =
     (let n = int (length xs);
          j = (if i < 0 then max (n + i) 0 else min i n)
      in drop (nat j) xs)"

text \<open>
  \<^verbatim>\<open>random.choice(seq)\<close> is \<^verbatim>\<open>seq[randbelow(len(seq))]\<close> and raises IndexError on
  an empty sequence. The random source is the parameter \<open>randbelow\<close>: the number
  drawn below a bound.
\<close>

definition random_choice :: "(nat \<Rightarrow> nat) \<Rightarrow> 'a list \<Rightarrow> py_error + 'a" where
  "random_choice randbelow seq =
     (if seq = [] then Inl IndexError
      else if randbelow (length seq) < length seq then Inr (seq ! randbelow (length seq))
      else Inl IndexError)"

text \<open>
  \<^verbatim>\<open>track_next_use\<close>. \<^verbatim>\<open>mov.validate(opponent)\<close> evaluates the conditions of a
  technique, which are not among the sources: the parameter \<open>validate\<close>.
  \<^verbatim>\<open>skip.load("skip")\<close> reads the technique from the database: the parameter
  \<open>load_technique\<close>. The new \<^verbatim>\<open>Technique()\<close> is a new object of the heap.
\<close>

definition candidate_actions ::
  "(technique_ref \<Rightarrow> monster_ref \<Rightarrow> bool) \<Rightarrow> CombatState \<Rightarrow> monster_ref
     \<Rightarrow> (technique_ref \<times> monster_ref) list" where
  "candidate_actions validate s monster =
     concat (map (\<lambda>mov.
                if next_use (technique_heap s mov) \<le> 0
                then map (\<lambda>opponent. (mov, opponent)) (filter (validate mov) (opponents s))
                else [])
        (slice_from (moves (monster_heap s monster)) (- max_moves (monster_heap s monster))))"

definition track_next_use ::
  "(nat \<Rightarrow> nat) \<Rightarrow> (technique_ref \<Rightarrow> monster_ref \<Rightarrow> bool) \<Rightarrow> (string \<Rightarrow> Technique)
     \<Rightarrow> monster_ref \<Rightarrow> CombatState \<Rightarrow> py_error + ((technique_ref \<times> monster_ref) \<times> CombatState)" where
  "track_next_use randbelow validate load_technique monster s =
     (let actions = candidate_actions validate s monster
      in if actions = []
         then
           (let skip = next_technique s;
                s1 = s\<lparr>technique_heap := (technique_heap s)(skip := load_technique ''skip''),
                       next_technique := Suc skip\<rparr>
            in case random_choice randbelow (opponents s1) of
                 Inl e \<Rightarrow> Inl e
               | Inr tgt \<Rightarrow> Inr ((skip, tgt), s1))
         else
           (case random_choice randbelow actions of
              Inl e \<Rightarrow> Inl e
            | Inr a \<Rightarrow> Inr (a, s)))"

text \<open>
  \<^verbatim>\<open>action_tech\<close> and \<^verbatim>\<open>action_item\<close>. \<^verbatim>\<open>pre_checking\<close> (of \<^verbatim>\<open>tuxemon.combat\<close>)
  is not among the sources: the parameter gives the technique it returns.
\<close>

definition action_tech ::
  "(monster_ref \<Rightarrow> technique_ref \<Rightarrow> monster_ref \<Rightarrow> technique_ref)
     \<Rightarrow> monster_ref \<Rightarrow> technique_ref \<Rightarrow> monster_ref \<Rightarrow> CombatState \<Rightarrow> CombatState" where
  "action_tech pre_checking monster tech tgt s =
     (let s1 = update_npc (human s)
                 (\<lambda>n. n\<lparr>game_variables :=
                         (game_variables n)(''action_tech'' \<mapsto> Text (tech_slug (technique_heap s tech)))\<rparr>) s;
          tech1 = pre_checking monster tech tgt
      in enqueue_action (Some (MonsterUser monster)) (Some (TechniqueRef tech1)) tgt s1)"

definition action_item :: "monster_ref \<Rightarrow> item_ref \<Rightarrow> CombatState \<Rightarrow> CombatState" where
  "action_item monster itm s =
     enqueue_action (Some (NPCUser (ai_user s))) (Some (ItemRef itm)) monster s"

text \<open>
  \<^verbatim>\<open>
  def make_decision_trainer(self):
      if self.check_strongest():
          if len(self.user.items) > 0:
              for itm in self.user.items:
                  if itm.category == ItemCategory.potion:
                      if self.need_potion():
                          self.action_item(itm)
      technique, target = self.track_next_use()
      self.action_tech(technique, target)
  \<close>
\<close>

definition potion_step :: "monster_ref \<Rightarrow> item_ref \<Rightarrow> CombatState \<Rightarrow> CombatState" where
  "potion_step monster itm s =
     (if category (item_heap s itm) = ''potion''
      then (if need_potion (monster_heap s monster) then action_item monster itm s else s)
      else s)"

definition make_decision_trainer ::
  "(nat \<Rightarrow> nat) \<Rightarrow> (technique_ref \<Rightarrow> monster_ref \<Rightarrow> bool) \<Rightarrow> (string \<Rightarrow> Technique)
     \<Rightarrow> (monster_ref \<Rightarrow> technique_ref \<Rightarrow> monster_ref \<Rightarrow> technique_ref)
     \<Rightarrow> monster_ref \<Rightarrow> CombatState \<Rightarrow> py_error + CombatState" where
  "make_decision_trainer randbelow validate load_technique pre_checking monster s =
     (case check_strongest s monster of
        Inl e \<Rightarrow> Inl e
      | Inr strongest \<Rightarrow>
          (let s1 = (if strongest
                     then (if length (items (npc_heap s (ai_user s))) > 0
                           then fold (potion_step monster) (items (npc_heap s (ai_user s))) s
                           else s)
                     else s)
           in case track_next_use randbelow validate load_technique monster s1 of
                Inl e \<Rightarrow> Inl e
              | Inr ((tech, tgt), s2) \<Rightarrow> Inr (action_tech pre_checking monster tech tgt s2)))"

definition make_decision_wild ::
  "(nat \<Rightarrow> nat) \<Rightarrow> (technique_ref \<Rightarrow> monster_ref \<Rightarrow> bool) \<Rightarrow> (string \<Rightarrow> Technique)
     \<Rightarrow> (monster_ref \<Rightarrow> technique_ref \<Rightarrow> monster_ref \<Rightarrow> technique_ref)
     \<Rightarrow> monster_ref \<Rightarrow> CombatState \<Rightarrow> py_error + CombatState" where
  "make_decision_wild randbelow validate load_technique pre_checking monster s =
     (case track_next_use randbelow validate load_technique monster s of
        Inl e \<Rightarrow> Inl e
      | Inr ((tech, tgt), s2) \<Rightarrow> Inr (action_tech pre_checking monster tech tgt s2))"

text \<open>The constructor of \<^verbatim>\<open>AI\<close>.\<close>

definition AI ::
  "(nat \<Rightarrow> nat) \<Rightarrow> (technique_ref \<Rightarrow> monster_ref \<Rightarrow> bool) \<Rightarrow> (string \<Rightarrow> Technique)
     \<Rightarrow> (monster_ref \<Rightarrow> technique_ref \<Rightarrow> monster_ref \<Rightarrow> technique_ref)
     \<Rightarrow> monster_ref \<Rightarrow> CombatState \<Rightarrow> py_error + CombatState" where
  "AI randbelow validate load_technique pre_checking monster s =
     (if is_trainer_battle s
      then make_decision_trainer randbelow validate load_technique pre_checking monster s
      else make_decision_wild randbelow validate load_technique pre_checking monster s)"

section \<open>The damage effect (local_damage.py) and its message (combat.py)\<close>

record TechEffectResult =
  damage :: int
  element_multiplier :: rat
  should_tackle :: bool
  success :: bool
  extra :: "string option"

text \<open>\<^verbatim>\<open>float(x)\<close> of a stored game variable. The decision phase stores a float under
  \<^verbatim>\<open>random_tech_hit\<close>; a text is taken not to be the text of a number.\<close>

definition py_float :: "game_value \<Rightarrow> py_error + rat" where
  "py_float v = (case v of Number r \<Rightarrow> Inr r | Text t \<Rightarrow> Inl ValueError)"

text \<open>
  \<^verbatim>\<open>LocalDamageEffect.apply\<close>. \<^verbatim>\<open>formula.simple_damage_calculate\<close>,
  \<^verbatim>\<open>formula.damage_full_hp\<close> and \<^verbatim>\<open>Technique.advance_counter_success\<close> are not among
  the sources and are parameters. \<^verbatim>\<open>self.session.player\<close> is the argument \<open>player\<close>.
  The result is the dictionary returned and the state left behind.
\<close>

definition LocalDamageEffect_apply ::
  "(CombatState \<Rightarrow> technique_ref \<Rightarrow> monster_ref \<Rightarrow> monster_ref \<Rightarrow> int \<times> rat)
     \<Rightarrow> (CombatState \<Rightarrow> monster_ref \<Rightarrow> int \<Rightarrow> int) \<Rightarrow> (Technique \<Rightarrow> Technique)
     \<Rightarrow> npc_ref \<Rightarrow> technique_ref \<Rightarrow> monster_ref \<Rightarrow> monster_ref \<Rightarrow> CombatState
     \<Rightarrow> py_error + (TechEffectResult \<times> CombatState)" where
  "LocalDamageEffect_apply simple_damage_calculate damage_full_hp advance_counter_success
       player tech usr tgt s =
     (case game_variables (npc_heap s player) ''random_tech_hit'' of
        None \<Rightarrow> Inl KeyError
      | Some stored \<Rightarrow>
          (case py_float stored of
             Inl e \<Rightarrow> Inl e
           | Inr val \<Rightarrow>
               (let hit = (accuracy (technique_heap s tech) \<ge> val)
                in if hit
                   then
                     (let s1 = update_technique tech (\<lambda>t. t\<lparr>tech_hit := True\<rparr>) s;
                          s2 = update_technique tech advance_counter_success s1;
                          (damage0, mult) = simple_damage_calculate s2 tech usr tgt;
                          dmg = (if tech_slug (technique_heap s2 tech) = ''panjandrum''
                                 then damage_full_hp s2 tgt 4 else damage0);
                          s3 = update_monster tgt (\<lambda>m. m\<lparr>current_hp := current_hp m - dmg\<rparr>) s2
                      in Inr (\<lparr>damage = dmg, element_multiplier = mult,
                                should_tackle = (dmg \<noteq> 0), success = (dmg \<noteq> 0),
                                extra = None\<rparr>, s3))
                   else
                     (let s1 = update_technique tech (\<lambda>t. t\<lparr>tech_hit := False\<rparr>) s
                      in Inr (\<lparr>damage = 0, element_multiplier = 1,
                                should_tackle = False, success = False,
                                extra = None\<rparr>, s1)))))"

text \<open>\<^verbatim>\<open>MULT_MAP\<close>; a float multiplier finds the integer keys 4 and 2 because Python
  compares and hashes \<^verbatim>\<open>4.0\<close> and \<^verbatim>\<open>4\<close> alike.\<close>

definition MULT_MAP :: "(rat \<times> string) list" where
  "MULT_MAP =
     [(4, ''attack_very_effective''),
      (2, ''attack_effective''),
      (1 / 2, ''attack_resisted''),
      (1 / 4, ''attack_weak'')]"

text \<open>
  The message key of \<^verbatim>\<open>perform_action\<close>, for a technique used by a monster:
  \<^verbatim>\<open>
  if result_tech["should_tackle"]:
      ...
      if technique.range != "special":
          element_damage_key = MULT_MAP.get(result_tech["element_multiplier"])
  \<close>
\<close>

definition element_damage_key :: "Technique \<Rightarrow> TechEffectResult \<Rightarrow> string option" where
  "element_damage_key tech result_tech =
     (if should_tackle result_tech
      then (if tech_range tech \<noteq> ''special''
            then map_of MULT_MAP (element_multiplier result_tech)
            else None)
      else None)"

section \<open>The current_hp condition (current_hp.py)\<close>

text \<open>
  \<^verbatim>\<open>value: Union[int, float]\<close>; the test \<^verbatim>\<open>type(self.value) is float\<close> tells the two
  apart, so the value carries its type.
\<close>

datatype cond_value = IntValue int | FloatValue rat

text \<open>
  \<^verbatim>\<open>cmp_dict\<close>, keyed by \<^verbatim>\<open>Optional[str]\<close>. The operators of the module
  \<^verbatim>\<open>operator\<close> compare an int with a float exactly, so both sides are read as
  rationals.
\<close>

definition cmp_dict :: "(string option \<times> (rat \<Rightarrow> rat \<Rightarrow> bool)) list" where
  "cmp_dict =
     [(None, (\<lambda>a b. a \<ge> b)),
      (Some ''<'', (\<lambda>a b. a < b)),
      (Some ''<='', (\<lambda>a b. a \<le> b)),
      (Some ''>'', (\<lambda>a b. a > b)),
      (Some ''>='', (\<lambda>a b. a \<ge> b)),
      (Some ''=='', (\<lambda>a b. a = b)),
      (Some ''='', (\<lambda>a b. a = b))]"

record CurrentHitPointsCondition =
  comparison :: "string option"
  cvalue :: cond_value

text \<open>
  \<^verbatim>\<open>test\<close>: a comparison that is not a key of \<^const>\<open>cmp_dict\<close> raises KeyError.
  With a float value the right-hand side is \<^verbatim>\<open>target.hp * self.value\<close>, a product of
  doubles: the int is converted to a double and the product is rounded to a double.
  The rounded product is the parameter \<open>float_mul\<close>; it is not the exact product in
  general (\<^verbatim>\<open>5 * 0.2\<close> is the double \<^verbatim>\<open>1.0\<close>, while the double \<^verbatim>\<open>0.2\<close> is a little
  more than one fifth).
\<close>

definition test ::
  "(int \<Rightarrow> rat \<Rightarrow> rat) \<Rightarrow> CurrentHitPointsCondition \<Rightarrow> Monster \<Rightarrow> py_error + bool" where
  "test float_mul self tgt =
     (let lhs = of_int (current_hp tgt)
      in case map_of cmp_dict (comparison self) of
           None \<Rightarrow> Inl KeyError
         | Some op \<Rightarrow>
             (let rhs = (case cvalue self of
                           FloatValue v \<Rightarrow> float_mul (hp tgt) v
                         | IntValue v \<Rightarrow> of_int v)
              in Inr (op lhs rhs)))"

section \<open>Concrete battles\<close>

text \<open>A small battle used to run the definitions: player 0 is the human with
  monster 0 on the field, player 1 the opponent with monster 1.\<close>

definition blank_monster :: Monster where
  "blank_monster =
     \<lparr>current_hp = 10, hp = 10, level = 1, total_experience = 0, experience_modifier = 1,
      money_modifier = 1, status = [], moves = [], max_moves = 4\<rparr>"

definition blank_technique :: Technique where
  "blank_technique =
     \<lparr>tech_slug = ''tackle'', tech_sort = ''damage'', accuracy = 1, next_use = 0,
      tech_range = ''melee'', tech_hit = False\<rparr>"

definition skip_technique :: Technique where
  "skip_technique =
     \<lparr>tech_slug = ''skip'', tech_sort = ''meta'', accuracy = 1, next_use = 0,
      tech_range = ''special'', tech_hit = False\<rparr>"

definition faint_condition :: Condition where
  "faint_condition = \<lparr>cond_slug = ''faint'', cond_sort = ''meta'', nr_turn = 0\<rparr>"

definition potion_item :: Item where
  "potion_item = \<lparr>item_sort = ''potion'', category = ''potion''\<rparr>"

definition blank_npc :: NPC where
  "blank_npc =
     \<lparr>monsters = [], items = [], max_position = 1, isplayer = False,
      game_variables = Map.empty\<rparr>"

definition blank_state :: CombatState where
  "blank_state =
     \<lparr>players = (0, 1),
      npc_heap = (\<lambda>_. blank_npc)(0 := blank_npc\<lparr>monsters := [0], isplayer := True\<rparr>,
                                  1 := blank_npc\<lparr>monsters := [1]\<rparr>),
      monster_heap = (\<lambda>_. blank_monster),
      technique_heap = (\<lambda>_. blank_technique),
      item_heap = (\<lambda>_. potion_item),
      condition_heap = (\<lambda>_. faint_condition),
      next_technique = 10,
      next_condition = 10,
      monsters_in_play = [(0, [0]), (1, [1])],
      action_queue = [],
      log_action = [],
      damage_map = Map.empty,
      turn = 1,
      prize = 0,
      run = False,
      is_trainer_battle = True\<rparr>"

text \<open>Monster 1 attacks monster 0 and monster 0 attacks monster 1, in this order of
  enqueueing.\<close>

definition attack_0 :: EnqueuedAction where
  "attack_0 = EnqueuedAction (Some (MonsterUser 0)) (Some (TechniqueRef 0)) 1"

definition attack_1 :: EnqueuedAction where
  "attack_1 = EnqueuedAction (Some (MonsterUser 1)) (Some (TechniqueRef 1)) 0"

definition two_attacks :: CombatState where
  "two_attacks = blank_state\<lparr>action_queue := [attack_1, attack_0]\<rparr>"

text \<open>Monster 0 is computed a speed of 5 for its action and monster 1 a speed of 3.\<close>

definition speed_5_3 :: "user_ref \<Rightarrow> EnqueuedAction \<Rightarrow> int" where
  "speed_5_3 u a = (if u = MonsterUser 0 then 5 else 3)"

text \<open>The human player has queued the same item on its monster 0 twice (as the two
  decisions of a double battle can), and monster 0 has no health left.\<close>

definition duplicated_item :: CombatState where
  "duplicated_item =
     blank_state
       \<lparr>monster_heap := (\<lambda>_. blank_monster)(0 := blank_monster\<lparr>current_hp := 0\<rparr>),
        action_queue := [EnqueuedAction (Some (NPCUser 0)) (Some (ItemRef 0)) 0,
                         EnqueuedAction (Some (NPCUser 0)) (Some (ItemRef 0)) 0]\<rparr>"

text \<open>The human player has one monster alive and two battle positions.\<close>

definition one_alive_two_positions :: CombatState where
  "one_alive_two_positions =
     blank_state
       \<lparr>npc_heap := (\<lambda>_. blank_npc)
          (0 := blank_npc\<lparr>monsters := [0], isplayer := True, max_position := 2\<rparr>,
           1 := blank_npc\<lparr>monsters := [1]\<rparr>)\<rparr>"






text \<open>A trainer battle: the trainer (player 1) holds one potion (item 0); its only
  monster, monster 1, is at health 10 of 100 and knows no technique.\<close>

definition critical_trainer :: CombatState where
  "critical_trainer =
     blank_state
       \<lparr>npc_heap := (\<lambda>_. blank_npc)
          (0 := blank_npc\<lparr>monsters := [0], isplayer := True\<rparr>,
           1 := blank_npc\<lparr>monsters := [1], items := [0]\<rparr>),
        monster_heap := (\<lambda>_. blank_monster)
          (1 := blank_monster\<lparr>current_hp := 10, hp := 100, level := 5\<rparr>)\<rparr>"

text \<open>The shared random draw of the round is 1/2; technique 0 has accuracy 1 and
  technique 1 accuracy 1/4. Every hit deals 3 damage with multiplier 2.\<close>

definition drawn_half :: CombatState where
  "drawn_half =
     blank_state
       \<lparr>npc_heap := (\<lambda>_. blank_npc)
          (0 := blank_npc\<lparr>monsters := [0], isplayer := True,
                           game_variables := [''random_tech_hit'' \<mapsto> Number (1 / 2)]\<rparr>,
           1 := blank_npc\<lparr>monsters := [1]\<rparr>),
        technique_heap := (\<lambda>_. blank_technique)(1 := blank_technique\<lparr>accuracy := 1 / 4\<rparr>)\<rparr>"

definition damage_3 :: "CombatState \<Rightarrow> technique_ref \<Rightarrow> monster_ref \<Rightarrow> monster_ref \<Rightarrow> int \<times> rat" where
  "damage_3 s tech usr tgt = (3, 2)"

text \<open>The value of the double \<^verbatim>\<open>0.2\<close>, and a product of doubles that is exact
  except at \<^verbatim>\<open>5 * 0.2\<close>, which rounds to \<^verbatim>\<open>1.0\<close>.\<close>

definition double_0_2 :: rat where
  "double_0_2 = 3602879701896397 / 18014398509481984"

definition product_5 :: "int \<Rightarrow> rat \<Rightarrow> rat" where
  "product_5 h v = (if h = 5 \<and> v = double_0_2 then 1 else of_int h * v)"

section \<open>The transition function\<close>

text \<open>Outside the housekeeping phase \<^const>\<open>determine_phase\<close> leaves the combat state
  as it was.\<close>

lemma determine_phase_other_phases:
  "phase \<noteq> Some Housekeeping_phase \<Longrightarrow> snd (determine_phase s phase) = s"
proof (cases phase)
  case None
  then show ?thesis by simp
next
  case (Some p)
  assume "phase \<noteq> Some Housekeeping_phase"
  with Some show ?thesis by (cases p) (simp_all add: Let_def)
qed

text \<open>In the housekeeping phase the only thing written is the field
  \<^verbatim>\<open>max_position\<close> of players, and the only value written is 1.\<close>

lemma housekeeping_positions_frame:
  "\<exists>h. snd (housekeeping_positions s ps) = s\<lparr>npc_heap := h\<rparr> \<and>
       (\<forall>p. h p = npc_heap s p \<or> h p = (npc_heap s p)\<lparr>max_position := 1\<rparr>)"
proof (induction ps arbitrary: s)
  case Nil
  show ?case by (rule exI [of _ "npc_heap s"]) simp
next
  case (Cons player rest)
  define s1 where "s1 = update_npc player (\<lambda>n. n\<lparr>max_position := 1\<rparr>) s"
  have s1: "s1 = s\<lparr>npc_heap := (npc_heap s)(player := (npc_heap s player)\<lparr>max_position := 1\<rparr>)\<rparr>"
    by (simp add: s1_def update_npc_def)
  have base: "\<exists>h. s = s\<lparr>npc_heap := h\<rparr> \<and>
       (\<forall>p. h p = npc_heap s p \<or> h p = (npc_heap s p)\<lparr>max_position := 1\<rparr>)"
    by (rule exI [of _ "npc_heap s"]) simp
  have one: "\<exists>h. s1 = s\<lparr>npc_heap := h\<rparr> \<and>
       (\<forall>p. h p = npc_heap s p \<or> h p = (npc_heap s p)\<lparr>max_position := 1\<rparr>)"
    by (rule exI [of _ "(npc_heap s)(player := (npc_heap s player)\<lparr>max_position := 1\<rparr>)"])
       (simp add: s1)
  have rest1: "\<exists>h. snd (housekeeping_positions s1 rest) = s\<lparr>npc_heap := h\<rparr> \<and>
       (\<forall>p. h p = npc_heap s p \<or> h p = (npc_heap s p)\<lparr>max_position := 1\<rparr>)"
  proof -
    from Cons.IH [of s1] obtain h where h: "snd (housekeeping_positions s1 rest) = s1\<lparr>npc_heap := h\<rparr>"
      and hp: "\<forall>p. h p = npc_heap s1 p \<or> h p = (npc_heap s1 p)\<lparr>max_position := 1\<rparr>"
      by blast
    have "snd (housekeeping_positions s1 rest) = s\<lparr>npc_heap := h\<rparr>"
      using h by (simp add: s1)
    moreover have "\<forall>p. h p = npc_heap s p \<or> h p = (npc_heap s p)\<lparr>max_position := 1\<rparr>"
    proof
      fix p
      from hp have "h p = npc_heap s1 p \<or> h p = (npc_heap s1 p)\<lparr>max_position := 1\<rparr>" by blast
      then show "h p = npc_heap s p \<or> h p = (npc_heap s p)\<lparr>max_position := 1\<rparr>"
        by (cases "p = player") (auto simp: s1)
    qed
    ultimately show ?thesis by blast
  qed
  show ?case
    using base one rest1 Cons.IH [of s]
    by (simp add: Let_def s1_def [symmetric])
qed

text \<open>
  C1 on the code. In \<^const>\<open>one_alive_two_positions\<close> the human player has one monster
  alive, on the field, and \<^verbatim>\<open>max_position = 2\<close>. In the housekeeping phase
  \<^const>\<open>determine_phase\<close> answers "decision phase" and leaves the player with
  \<^verbatim>\<open>max_position = 1\<close>: it has written a field of a player.
\<close>

theorem determine_phase_sets_max_position:
  "max_position (npc_heap one_alive_two_positions 0) = 2 \<and>
   fst (determine_phase one_alive_two_positions (Some Housekeeping_phase)) = Some Decision_phase \<and>
   max_position (npc_heap (snd (determine_phase one_alive_two_positions (Some Housekeeping_phase))) 0) = 1"
  by (simp add: one_alive_two_positions_def blank_state_def blank_npc_def blank_monster_def
      players_list_def defeated_def alive_party_def update_npc_def in_play_def Let_def)

section \<open>The potion gate\<close>

text \<open>The rounded threshold, in integer arithmetic: \<open>3 * hp\<close> is divided by 20 and the
  remainder decides the direction, the half-way remainder 10 going to the even side.\<close>

lemma py_round_int:
  fixes p :: int
  shows "py_round (of_int p * (15 / 100)) =
         (let f = (3 * p) div 20; r = (3 * p) mod 20
          in if r < 10 then f else if 10 < r then f + 1 else if even f then f else f + 1)"
proof -
  define a where "a = 3 * p"
  have q: "(of_int p :: rat) * (15 / 100) = of_int a / of_int 20" by (simp add: a_def)
  have f: "\<lfloor>(of_int a :: rat) / of_int 20\<rfloor> = a div 20" by (rule floor_divide_of_int_eq)
  have alg: "\<And>x y :: rat. (20 * x + y) / 20 - x = y / 20" by (simp add: field_simps)
  have "a = 20 * (a div 20) + a mod 20" by simp
  then have "(of_int a :: rat) = of_int (20 * (a div 20) + a mod 20)" by simp
  then have "(of_int a :: rat) = 20 * of_int (a div 20) + of_int (a mod 20)"
    by (simp only: of_int_add of_int_mult of_int_numeral)
  then have "(of_int a :: rat) / 20 - of_int (a div 20) =
      (20 * of_int (a div 20) + of_int (a mod 20)) / 20 - of_int (a div 20)"
    by (rule arg_cong)
  then have d: "(of_int a :: rat) / of_int 20 - of_int (a div 20) = of_int (a mod 20) / 20"
    by (simp only: alg of_int_numeral)
  have lo: "(of_int (a mod 20) / 20 < (1 / 2 :: rat)) \<longleftrightarrow> a mod 20 < 10"
  proof -
    have "(of_int (a mod 20) / 20 < (1 / 2 :: rat)) \<longleftrightarrow> (of_int (a mod 20) :: rat) < of_int 10"
      by simp
    also have "\<dots> \<longleftrightarrow> a mod 20 < 10" by (simp only: of_int_less_iff)
    finally show ?thesis .
  qed
  have hi: "((1 / 2 :: rat) < of_int (a mod 20) / 20) \<longleftrightarrow> 10 < a mod 20"
  proof -
    have "((1 / 2 :: rat) < of_int (a mod 20) / 20) \<longleftrightarrow> (of_int 10 :: rat) < of_int (a mod 20)"
      by simp
    also have "\<dots> \<longleftrightarrow> 10 < a mod 20" by (simp only: of_int_less_iff)
    finally show ?thesis .
  qed
  show ?thesis
    unfolding q py_round_def Let_def f d lo hi a_def [symmetric] by simp
qed

lemma py_round_le:
  fixes h p :: int
  shows "h \<le> py_round (of_int p * (15 / 100)) \<longleftrightarrow>
         (20 * h < 3 * p + 10 \<or> (20 * h = 3 * p + 10 \<and> even h))"
proof -
  define f where "f = (3 * p) div 20"
  define r where "r = (3 * p) mod 20"
  have a: "3 * p = 20 * f + r" by (simp add: f_def r_def)
  have r0: "0 \<le> r" and r20: "r < 20" by (simp_all add: r_def)
  have pr: "py_round (of_int p * (15 / 100)) =
      (if r < 10 then f else if 10 < r then f + 1 else if even f then f else f + 1)"
    unfolding f_def r_def by (rule py_round_int [unfolded Let_def])
  consider (lo) "r < 10" | (hi) "10 < r" | (half) "r = 10" by linarith
  then show ?thesis
  proof cases
    case lo
    then show ?thesis unfolding pr a using r0 by auto
  next
    case hi
    then show ?thesis unfolding pr a using r20 by auto
  next
    case half
    have e1: "20 * h = 20 * f + 10 + 10 \<longleftrightarrow> h = f + 1" by auto
    have e2: "20 * h < 20 * f + 10 + 10 \<longleftrightarrow> h \<le> f" by auto
    show ?thesis
    proof (cases "even f")
      case True
      then show ?thesis unfolding pr a half e1 e2 by auto
    next
      case False
      have "h \<le> f + 1 \<longleftrightarrow> h \<le> f \<or> h = f + 1" by auto
      with False show ?thesis unfolding pr a half e1 e2 by auto
    qed
  qed
qed


lemma need_potion_iff:
  "need_potion m \<longleftrightarrow>
     1 < current_hp m \<and>
     (20 * current_hp m < 3 * hp m + 10 \<or>
      (20 * current_hp m = 3 * hp m + 10 \<and> even (current_hp m)))"
  unfolding need_potion_def py_round_le by simp

text \<open>
  C3, as amended. The gate of \<^const>\<open>need_potion\<close> holds exactly when the current health
  \<open>h\<close> is greater than 1 and at most the rounded threshold, that is
  \<open>20 * h < 3 * hp + 10\<close>, or \<open>20 * h = 3 * hp + 10\<close> with \<open>h\<close> even (a half-way threshold
  rounds to the even side). At exactly 15% of the maximum (and not zero) the gate holds;
  at health 0, and at health 1, it does not; at exactly 16% of the maximum it holds when
  the maximum is 25 or 50 and does not hold otherwise.
\<close>

theorem need_potion_gate:
  "(need_potion m \<longleftrightarrow>
      1 < current_hp m \<and>
      (20 * current_hp m < 3 * hp m + 10 \<or>
       (20 * current_hp m = 3 * hp m + 10 \<and> even (current_hp m)))) \<and>
   (0 < current_hp m \<and> 100 * current_hp m = 15 * hp m \<longrightarrow> need_potion m) \<and>
   (current_hp m \<le> 1 \<longrightarrow> \<not> need_potion m) \<and>
   (100 * current_hp m = 16 * hp m \<longrightarrow> (need_potion m \<longleftrightarrow> hp m = 25 \<or> hp m = 50))"
proof (intro conjI impI)
  show "need_potion m \<longleftrightarrow>
      1 < current_hp m \<and>
      (20 * current_hp m < 3 * hp m + 10 \<or>
       (20 * current_hp m = 3 * hp m + 10 \<and> even (current_hp m)))"
    by (rule need_potion_iff)
next
  assume a: "0 < current_hp m \<and> 100 * current_hp m = 15 * hp m"
  then have e: "20 * current_hp m = 3 * hp m" by simp
  define k where "k = 7 * current_hp m - hp m"
  from e have "current_hp m = 3 * k" by (simp add: k_def)
  moreover from a have "0 < current_hp m" by simp
  ultimately have "1 < current_hp m" by arith
  with e show "need_potion m" unfolding need_potion_iff by simp
next
  assume "current_hp m \<le> 1"
  then show "\<not> need_potion m" unfolding need_potion_iff by simp
next
  assume a: "100 * current_hp m = 16 * hp m"
  define j where "j = hp m - 6 * current_hp m"
  from a have j: "current_hp m = 4 * j" by (simp add: j_def)
  with a have h: "hp m = 25 * j" by simp
  show "need_potion m \<longleftrightarrow> hp m = 25 \<or> hp m = 50"
    unfolding need_potion_iff j h by auto
qed

text \<open>The gate at a maximum of 100: open at 15, closed at 16 and at 0.\<close>

theorem need_potion_gate_witness:
  "need_potion \<lparr>current_hp = 15, hp = 100, level = 1, total_experience = 0,
       experience_modifier = 1, money_modifier = 1, status = [], moves = [], max_moves = 4\<rparr> \<and>
   \<not> need_potion \<lparr>current_hp = 16, hp = 100, level = 1, total_experience = 0,
       experience_modifier = 1, money_modifier = 1, status = [], moves = [], max_moves = 4\<rparr> \<and>
   \<not> need_potion \<lparr>current_hp = 0, hp = 100, level = 1, total_experience = 0,
       experience_modifier = 1, money_modifier = 1, status = [], moves = [], max_moves = 4\<rparr>"
  using need_potion_gate [of "\<lparr>current_hp = 15, hp = 100, level = 1, total_experience = 0,
       experience_modifier = 1, money_modifier = 1, status = [], moves = [], max_moves = 4\<rparr>"]
    need_potion_gate [of "\<lparr>current_hp = 16, hp = 100, level = 1, total_experience = 0,
       experience_modifier = 1, money_modifier = 1, status = [], moves = [], max_moves = 4\<rparr>"]
    need_potion_gate [of "\<lparr>current_hp = 0, hp = 100, level = 1, total_experience = 0,
       experience_modifier = 1, money_modifier = 1, status = [], moves = [], max_moves = 4\<rparr>"]
  by simp

text \<open>
  C3 as stated fails twice: at health 1 of 100, inside the band \<open>0 < h \<le> 0.15 * hp\<close>, the
  gate is closed; and at health 4 of 25, which is 16% of the maximum, the gate is open
  (\<open>round(3.75) = 4\<close>).
\<close>

theorem need_potion_claim_counterexample:
  "(0 < (1::int) \<and> 100 * (1::int) \<le> 15 * 100 \<and>
    \<not> need_potion \<lparr>current_hp = 1, hp = 100, level = 1, total_experience = 0,
       experience_modifier = 1, money_modifier = 1, status = [], moves = [], max_moves = 4\<rparr>) \<and>
   (100 * (4::int) = 16 * 25 \<and>
    need_potion \<lparr>current_hp = 4, hp = 25, level = 1, total_experience = 0,
       experience_modifier = 1, money_modifier = 1, status = [], moves = [], max_moves = 4\<rparr>)"
  by (simp add: need_potion_iff)

section \<open>The decision of a trainer's monster\<close>

text \<open>\<^const>\<open>make_decision_trainer\<close> has no branch that returns before the technique:
  whenever it returns, the last action it has enqueued is a technique of the monster.\<close>

lemma action_tech_queue:
  "action_queue (action_tech pre_checking monster tech tgt s) =
     action_queue s @ [EnqueuedAction (Some (MonsterUser monster))
                         (Some (TechniqueRef (pre_checking monster tech tgt))) tgt]"
  by (simp add: action_tech_def enqueue_action_def update_npc_def Let_def)

lemma make_decision_trainer_enqueues_technique:
  assumes "make_decision_trainer randbelow validate load_technique pre_checking monster s = Inr s'"
  shows "\<exists>tech tgt. last (action_queue s') =
           EnqueuedAction (Some (MonsterUser monster)) (Some (TechniqueRef tech)) tgt"
  using assms
  by (auto simp: make_decision_trainer_def action_tech_queue Let_def split: sum.splits)

text \<open>In \<^const>\<open>critical_trainer\<close> monster 1 is the strongest of its roster, the
  trainer holds a potion and the health 10 of 100 opens the potion gate.\<close>

lemma critical_trainer_facts:
  "check_strongest critical_trainer (Suc 0) = Inr True"
  "need_potion (monster_heap critical_trainer (Suc 0))"
  "items (npc_heap critical_trainer (ai_user critical_trainer)) = [0]"
  "category (item_heap critical_trainer 0) = ''potion''"
  "current_hp (monster_heap critical_trainer (Suc 0)) = 10"
  "hp (monster_heap critical_trainer (Suc 0)) = 100"
  by (simp_all add: check_strongest_def need_potion_iff critical_trainer_def blank_state_def
      blank_npc_def blank_monster_def potion_item_def ai_user_def Let_def)

text \<open>
  C2 on the code. In the trainer battle \<^const>\<open>critical_trainer\<close> the decision for
  monster 1 enqueues the potion on monster 1 and then also a technique of monster 1
  (the \<open>skip\<close> technique, on monster 0): two actions for one monster in one round.
\<close>

theorem trainer_enqueues_item_and_technique:
  "is_trainer_battle critical_trainer \<and>
   check_strongest critical_trainer 1 = Inr True \<and>
   category (item_heap critical_trainer 0) = ''potion'' \<and>
   current_hp (monster_heap critical_trainer 1) = 10 \<and>
   hp (monster_heap critical_trainer 1) = 100 \<and>
   (case AI (\<lambda>n. 0) (\<lambda>t m. True) (\<lambda>slug. skip_technique) (\<lambda>m t tgt. t) 1 critical_trainer of
      Inl e \<Rightarrow> None
    | Inr s' \<Rightarrow> Some (action_queue s'))
   = Some [EnqueuedAction (Some (NPCUser 1)) (Some (ItemRef 0)) 1,
           EnqueuedAction (Some (MonsterUser 1)) (Some (TechniqueRef 10)) 0]"
proof -
  have t: "track_next_use (\<lambda>n. 0) (\<lambda>t m. True) (\<lambda>slug. skip_technique) (Suc 0)
             (action_item (Suc 0) 0 critical_trainer)
           = Inr ((10, 0), (action_item (Suc 0) 0 critical_trainer)
                \<lparr>technique_heap := (technique_heap critical_trainer)(10 := skip_technique),
                  next_technique := 11\<rparr>)"
    by (simp add: track_next_use_def candidate_actions_def slice_from_def random_choice_def
        opponents_def in_play_def human_def action_item_def enqueue_action_def
        critical_trainer_def blank_state_def blank_monster_def Let_def)
  show ?thesis
    by (simp add: AI_def make_decision_trainer_def critical_trainer_facts potion_step_def t
        action_tech_queue)
       (simp add: action_item_def enqueue_action_def ai_user_def critical_trainer_def blank_state_def
          Let_def)
qed

section \<open>The order of execution\<close>

text \<open>Popping from the end executes a queue in reverse.\<close>

lemma pop_order_rev: "pop_order q = rev q"
proof (induction q rule: rev_induct)
  case Nil
  then show ?case by simp
next
  case (snoc x xs)
  then show ?case by (subst pop_order.simps) simp
qed

lemma rank_all_Inr:
  "rank_all speed_test s q = Inr keyed \<Longrightarrow>
   map snd keyed = q \<and> (\<forall>x \<in> set keyed. rank_action speed_test s (snd x) = Inr (fst x))"
  by (induction q arbitrary: keyed) (auto split: sum.splits)

text \<open>The descending sort permutes, puts the keys in descending order and keeps the
  order of elements with equal keys.\<close>

lemma sort_reverse_mset: "mset (sort_reverse keyed) = mset keyed"
  by (simp add: sort_reverse_def)

lemma sort_reverse_set: "set (sort_reverse keyed) = set keyed"
  by (simp add: sort_reverse_def)

lemma sort_reverse_sorted: "sorted (map fst (rev (sort_reverse keyed)))"
  by (simp add: sort_reverse_def)

lemma sort_reverse_stable:
  "filter (\<lambda>x. fst x = k) (sort_reverse keyed) = filter (\<lambda>x. fst x = k) keyed"
proof -
  have "filter (\<lambda>x. fst x = k) (sort_reverse keyed)
        = rev (filter (\<lambda>x. fst x = k) (sort_key fst (rev keyed)))"
    by (simp add: sort_reverse_def rev_filter)
  also have "\<dots> = rev (filter (\<lambda>x. fst x = k) (rev keyed))"
    by (simp only: sort_key_stable)
  also have "\<dots> = filter (\<lambda>x. fst x = k) keyed"
    by (simp add: rev_filter)
  finally show ?thesis .
qed

lemma sort_action_queue_order:
  assumes "sort_action_queue speed_test s = Inr s'"
  shows "mset (action_queue s') = mset (action_queue s)"
    and "pop_order (action_queue s') = rev (action_queue s')"
    and "sorted_wrt
           (\<lambda>a b. \<exists>ka kb. rank_action speed_test s a = Inr ka \<and> rank_action speed_test s b = Inr kb \<and>
                     (fst ka < fst kb \<or> fst ka = fst kb \<and> snd ka \<le> snd kb))
           (pop_order (action_queue s'))"
    and "filter (\<lambda>a. rank_action speed_test s a = Inr k) (action_queue s')
           = filter (\<lambda>a. rank_action speed_test s a = Inr k) (action_queue s)"
proof -
  from assms obtain keyed where keyed: "rank_all speed_test s (action_queue s) = Inr keyed"
    and s': "s' = s\<lparr>action_queue := map snd (sort_reverse keyed)\<rparr>"
    by (auto simp: sort_action_queue_def split: sum.splits)
  from rank_all_Inr [OF keyed] have q: "map snd keyed = action_queue s"
    and ranks: "\<And>x. x \<in> set keyed \<Longrightarrow> rank_action speed_test s (snd x) = Inr (fst x)"
    by auto
  have q': "action_queue s' = map snd (sort_reverse keyed)" by (simp add: s')
  show "mset (action_queue s') = mset (action_queue s)"
  proof -
    have "mset (map snd (sort_reverse keyed)) = image_mset snd (mset (sort_reverse keyed))" by simp
    also have "\<dots> = image_mset snd (mset keyed)" by (simp only: sort_reverse_mset)
    also have "\<dots> = mset (map snd keyed)" by simp
    finally show ?thesis unfolding q' q .
  qed
  show "pop_order (action_queue s') = rev (action_queue s')" by (rule pop_order_rev)
  let ?L = "rev (sort_reverse keyed)"
  have setL: "set ?L = set keyed" by (simp add: sort_reverse_set)
  have "sorted_wrt (\<lambda>x y. fst x \<le> fst y) ?L"
    using sort_reverse_sorted [of keyed] by (simp only: sorted_map)
  then have "sorted_wrt
       (\<lambda>x y. \<exists>ka kb. rank_action speed_test s (snd x) = Inr ka \<and> rank_action speed_test s (snd y) = Inr kb \<and>
                 (fst ka < fst kb \<or> fst ka = fst kb \<and> snd ka \<le> snd kb)) ?L"
  proof (rule sorted_wrt_mono_rel [rotated])
    fix x y assume "x \<in> set ?L" "y \<in> set ?L" "fst x \<le> fst y"
    then have "rank_action speed_test s (snd x) = Inr (fst x)"
      "rank_action speed_test s (snd y) = Inr (fst y)"
      using ranks setL by auto
    moreover from \<open>fst x \<le> fst y\<close>
    have "fst (fst x) < fst (fst y) \<or> fst (fst x) = fst (fst y) \<and> snd (fst x) \<le> snd (fst y)"
      by (auto simp: less_eq_prod_def)
    ultimately show "\<exists>ka kb. rank_action speed_test s (snd x) = Inr ka \<and>
        rank_action speed_test s (snd y) = Inr kb \<and>
        (fst ka < fst kb \<or> fst ka = fst kb \<and> snd ka \<le> snd kb)" by blast
  qed
  then show "sorted_wrt
           (\<lambda>a b. \<exists>ka kb. rank_action speed_test s a = Inr ka \<and> rank_action speed_test s b = Inr kb \<and>
                     (fst ka < fst kb \<or> fst ka = fst kb \<and> snd ka \<le> snd kb))
           (pop_order (action_queue s'))"
    unfolding pop_order_rev q' by (simp add: rev_map sorted_wrt_map)
  have "filter (\<lambda>a. rank_action speed_test s a = Inr k) (action_queue s')
        = map snd (filter (\<lambda>x. rank_action speed_test s (snd x) = Inr k) (sort_reverse keyed))"
    unfolding q' by (simp add: filter_map comp_def)
  also have "filter (\<lambda>x. rank_action speed_test s (snd x) = Inr k) (sort_reverse keyed)
        = filter (\<lambda>x. fst x = k) (sort_reverse keyed)"
    by (rule filter_cong) (auto simp: sort_reverse_set ranks)
  also have "\<dots> = filter (\<lambda>x. fst x = k) keyed" by (rule sort_reverse_stable)
  also have "\<dots> = filter (\<lambda>x. rank_action speed_test s (snd x) = Inr k) keyed"
    by (rule filter_cong) (auto simp: ranks)
  also have "map snd \<dots> = filter (\<lambda>a. rank_action speed_test s a = Inr k) (action_queue s)"
    unfolding q [symmetric] by (simp add: filter_map comp_def)
  finally show "filter (\<lambda>a. rank_action speed_test s a = Inr k) (action_queue s')
           = filter (\<lambda>a. rank_action speed_test s a = Inr k) (action_queue s)" .
qed


text \<open>
  C4, as amended. When \<^const>\<open>sort_action_queue\<close> succeeds, the sorted queue is a
  permutation of the queue; the executor takes the last element of the sorted
  sequence, so the queue is executed in the reverse of the sorted sequence; in this
  order of execution the sort keys ascend: an action whose category comes earlier in
  the fixed list is executed earlier, and of two actions of the same category the one
  with the lower speed key is executed first (the categories \<open>meta\<close> and \<open>potion\<close> have
  the speed key 0). Actions with the same key keep their relative enqueue order in the
  sorted sequence.
\<close>

theorem sort_action_queue_execution:
  "sort_action_queue speed_test s = Inr s' \<Longrightarrow>
     mset (action_queue s') = mset (action_queue s) \<and>
     fst (handle_action_queue s') =
       (if action_queue s' = [] then None else Some (last (action_queue s'))) \<and>
     pop_order (action_queue s') = rev (action_queue s') \<and>
     sorted_wrt
       (\<lambda>a b. \<exists>ka kb. rank_action speed_test s a = Inr ka \<and> rank_action speed_test s b = Inr kb \<and>
                 (fst ka < fst kb \<or> fst ka = fst kb \<and> snd ka \<le> snd kb))
       (pop_order (action_queue s')) \<and>
     (\<forall>k. filter (\<lambda>a. rank_action speed_test s a = Inr k) (action_queue s')
           = filter (\<lambda>a. rank_action speed_test s a = Inr k) (action_queue s))"
  using sort_action_queue_order [of speed_test s s']
  by (simp add: handle_action_queue_def)

text \<open>Two damage techniques, enqueued by monster 1 (speed 3) and then by monster 0
  (speed 5): the sorted queue is monster 0's action, then monster 1's.\<close>

lemma two_attacks_ranks:
  "rank_action speed_5_3 two_attacks attack_0 = Inr (6, 5)"
  "rank_action speed_5_3 two_attacks attack_1 = Inr (6, 3)"
  by (simp_all add: rank_action_def payload_sort_def two_attacks_def blank_state_def
        blank_technique_def attack_0_def attack_1_def sort_order_def speed_5_3_def)

lemma two_attacks_sorted:
  "sort_action_queue speed_5_3 two_attacks = Inr (two_attacks\<lparr>action_queue := [attack_0, attack_1]\<rparr>)"
proof -
  have q: "action_queue two_attacks = [attack_1, attack_0]"
    by (simp add: two_attacks_def)
  have "rank_all speed_5_3 two_attacks (action_queue two_attacks)
          = Inr [((6, 3), attack_1), ((6, 5), attack_0)]"
    unfolding q by (simp add: two_attacks_ranks)
  moreover have "sort_reverse [((6::nat, 3::int), attack_1), ((6, 5), attack_0)]
          = [((6, 5), attack_0), ((6, 3), attack_1)]"
    by (simp add: sort_reverse_def less_eq_prod_def)
  ultimately show ?thesis by (simp add: sort_action_queue_def)
qed

theorem sort_action_queue_execution_witness:
  "sort_action_queue speed_5_3 two_attacks = Inr (two_attacks\<lparr>action_queue := [attack_0, attack_1]\<rparr>) \<and>
   pop_order [attack_0, attack_1] = [attack_1, attack_0] \<and>
   fst (handle_action_queue (two_attacks\<lparr>action_queue := [attack_0, attack_1]\<rparr>)) = Some attack_1"
  using sort_action_queue_execution [OF two_attacks_sorted] two_attacks_sorted
  by simp

text \<open>
  C4 as stated fails: both actions are of the category \<open>damage\<close>, the user of
  \<^const>\<open>attack_0\<close> has the higher speed, and the action executed first is
  \<^const>\<open>attack_1\<close>.
\<close>

theorem higher_speed_first_counterexample:
  "rank_action speed_5_3 two_attacks attack_0 = Inr (6, 5) \<and>
   rank_action speed_5_3 two_attacks attack_1 = Inr (6, 3) \<and>
   (case sort_action_queue speed_5_3 two_attacks of
      Inl e \<Rightarrow> None
    | Inr s' \<Rightarrow> fst (handle_action_queue s')) = Some attack_1"
  by (simp add: two_attacks_ranks two_attacks_sorted handle_action_queue_def)

section \<open>Experience for a fainted monster\<close>








section \<open>Removing the actions of a fainted monster\<close>

text \<open>On a queue without two equal actions the removal leaves exactly the actions that
  do not mention the monster.\<close>

lemma remove1_distinct_filter: "distinct q \<Longrightarrow> remove1 x q = filter (\<lambda>a. a \<noteq> x) q"
  by (simp add: distinct_remove1_removeAll removeAll_filter_not_eq) metis

lemma fold_remove1_distinct:
  "distinct q \<Longrightarrow> fold remove1 xs q = filter (\<lambda>a. a \<notin> set xs) q"
proof (induction xs arbitrary: q)
  case Nil
  then show ?case by simp
next
  case (Cons x xs)
  have "fold remove1 (x # xs) q = fold remove1 xs (filter (\<lambda>a. a \<noteq> x) q)"
    using Cons.prems by (simp add: remove1_distinct_filter)
  also have "\<dots> = filter (\<lambda>a. a \<notin> set xs) (filter (\<lambda>a. a \<noteq> x) q)"
    using Cons.prems by (intro Cons.IH) simp
  also have "\<dots> = filter (\<lambda>a. a \<notin> set (x # xs)) q"
    by (auto intro: filter_cong)
  finally show ?case .
qed

lemma remove_monster_actions_distinct:
  assumes "distinct (action_queue s)"
  shows "action_queue (remove_monster_actions_from_queue monster s) =
           filter (\<lambda>a. \<not> (user a = Some (MonsterUser monster) \<or> target a = monster)) (action_queue s)"
  unfolding remove_monster_actions_from_queue_def Let_def
  using assms by (auto simp: fold_remove1_distinct intro: filter_cong)

text \<open>With the same action queued twice, the set \<^verbatim>\<open>to_remove\<close> holds it once and
  \<^verbatim>\<open>list.remove\<close> deletes one occurrence.\<close>

lemma dup_remove:
  "action_queue (remove_monster_actions_from_queue 0 duplicated_item)
     = [EnqueuedAction (Some (NPCUser 0)) (Some (ItemRef 0)) 0]"
  by (simp add: remove_monster_actions_from_queue_def duplicated_item_def)

text \<open>
  C6 on the code. In \<^const>\<open>duplicated_item\<close> the human player has queued the same item
  on monster 0 twice and monster 0 is at health 0. \<^const>\<open>check_party_hp\<close> processes its
  faint (health 0, the condition \<open>faint\<close>), and the queue still holds an action whose
  target is monster 0.
\<close>

theorem faint_leaves_duplicate_action:
  "(case check_party_hp (\<lambda>c m s. s) (\<lambda>x m. m\<lparr>total_experience := total_experience m + x\<rparr>)
            (\<lambda>m d. m) (\<lambda>slug. faint_condition) duplicated_item of
      Inl e \<Rightarrow> None
    | Inr s' \<Rightarrow> Some (current_hp (monster_heap s' 0), has_status s' 0 ''faint'', action_queue s'))
   = Some (0, True, [EnqueuedAction (Some (NPCUser 0)) (Some (ItemRef 0)) 0])"
  by (simp add: check_party_hp_def check_monster_hp_def active_monsters_def
      faint_monster_def remove_monster_actions_from_queue_def has_status_def
      update_monster_def update_condition_def
      duplicated_item_def blank_state_def blank_monster_def faint_condition_def Let_def)

section \<open>The damage effect\<close>

text \<open>The four keys of \<^const>\<open>MULT_MAP\<close>.\<close>

lemma MULT_MAP_lookup:
  "map_of MULT_MAP x =
     (if x = 4 then Some ''attack_very_effective''
      else if x = 2 then Some ''attack_effective''
      else if x = 1 / 2 then Some ''attack_resisted''
      else if x = 1 / 4 then Some ''attack_weak''
      else None)"
  by (simp add: MULT_MAP_def)

text \<open>
  C7. The shared draw \<open>v\<close> of the round is stored, and the counter of successes does
  not touch the hit flag. \<^const>\<open>LocalDamageEffect_apply\<close> returns; the technique is
  marked as a hit exactly when its accuracy is at least \<open>v\<close>; \<^verbatim>\<open>should_tackle\<close> is
  \<^verbatim>\<open>bool(damage)\<close> and the target loses the damage returned; on a miss the damage is 0,
  \<^verbatim>\<open>should_tackle\<close> and \<^verbatim>\<open>success\<close> are false, no monster changes and there is no
  effectiveness message. For a tackle of a technique whose range is not special, the
  message key is looked up in \<^const>\<open>MULT_MAP\<close>, which has a key exactly at the
  multipliers 4, 2, 1/2 and 1/4, and none at 1.
\<close>

theorem local_damage_hit_iff:
  assumes "game_variables (npc_heap s player) ''random_tech_hit'' = Some (Number v)"
    and "\<forall>t. tech_hit (advance_counter_success t) = tech_hit t"
  shows "\<exists>r s'. LocalDamageEffect_apply simple_damage_calculate damage_full_hp advance_counter_success
                   player tech usr tgt s = Inr (r, s') \<and>
           (tech_hit (technique_heap s' tech) \<longleftrightarrow> v \<le> accuracy (technique_heap s tech)) \<and>
           (should_tackle r \<longleftrightarrow> damage r \<noteq> 0) \<and>
           current_hp (monster_heap s' tgt) = current_hp (monster_heap s tgt) - damage r \<and>
           (\<not> v \<le> accuracy (technique_heap s tech) \<longrightarrow>
              damage r = 0 \<and> \<not> should_tackle r \<and> \<not> success r \<and>
              monster_heap s' = monster_heap s \<and>
              element_damage_key (technique_heap s' tech) r = None) \<and>
           (should_tackle r \<and> tech_range (technique_heap s' tech) \<noteq> ''special'' \<longrightarrow>
              element_damage_key (technique_heap s' tech) r =
                (if element_multiplier r = 4 then Some ''attack_very_effective''
                 else if element_multiplier r = 2 then Some ''attack_effective''
                 else if element_multiplier r = 1 / 2 then Some ''attack_resisted''
                 else if element_multiplier r = 1 / 4 then Some ''attack_weak''
                 else None)) \<and>
           map_of MULT_MAP x =
             (if x = 4 then Some ''attack_very_effective''
              else if x = 2 then Some ''attack_effective''
              else if x = 1 / 2 then Some ''attack_resisted''
              else if x = 1 / 4 then Some ''attack_weak''
              else None) \<and>
           map_of MULT_MAP 1 = None"
proof (cases "v \<le> accuracy (technique_heap s tech)")
  case True
  obtain d m where dm: "simple_damage_calculate
      (update_technique tech advance_counter_success (update_technique tech (\<lambda>t. t\<lparr>tech_hit := True\<rparr>) s))
      tech usr tgt = (d, m)"
    by (cases "simple_damage_calculate
      (update_technique tech advance_counter_success (update_technique tech (\<lambda>t. t\<lparr>tech_hit := True\<rparr>) s))
      tech usr tgt") auto
  show ?thesis
    using assms True dm
    by (simp add: LocalDamageEffect_apply_def py_float_def Let_def update_technique_def
        update_monster_def element_damage_key_def MULT_MAP_lookup)
next
  case False
  then show ?thesis
    using assms
    by (simp add: LocalDamageEffect_apply_def py_float_def Let_def update_technique_def
        update_monster_def element_damage_key_def MULT_MAP_lookup)
qed


text \<open>With the draw 1/2: technique 0 (accuracy 1) hits, deals 3 with multiplier 2 and
  is reported as effective; technique 1 (accuracy 1/4) misses.\<close>

theorem local_damage_hit_iff_witness:
  "game_variables (npc_heap drawn_half 0) ''random_tech_hit'' = Some (Number (1 / 2)) \<and>
   (case LocalDamageEffect_apply damage_3 (\<lambda>s m n. 0) (\<lambda>t. t) 0 0 0 1 drawn_half of
      Inl e \<Rightarrow> None
    | Inr (r, s') \<Rightarrow>
        Some (r, tech_hit (technique_heap s' 0), current_hp (monster_heap s' 1),
              element_damage_key (technique_heap s' 0) r))
     = Some (\<lparr>damage = 3, element_multiplier = 2, should_tackle = True, success = True,
               extra = None\<rparr>, True, 7, Some ''attack_effective'') \<and>
   (case LocalDamageEffect_apply damage_3 (\<lambda>s m n. 0) (\<lambda>t. t) 0 1 0 1 drawn_half of
      Inl e \<Rightarrow> None
    | Inr (r, s') \<Rightarrow>
        Some (r, tech_hit (technique_heap s' 1), current_hp (monster_heap s' 1),
              element_damage_key (technique_heap s' 1) r))
     = Some (\<lparr>damage = 0, element_multiplier = 1, should_tackle = False, success = False,
               extra = None\<rparr>, False, 10, None)"
  using local_damage_hit_iff [where s = drawn_half and player = 0 and v = "1 / 2"
      and advance_counter_success = "\<lambda>t. t" and simple_damage_calculate = damage_3
      and damage_full_hp = "\<lambda>s m n. 0" and tech = 0 and usr = 0 and tgt = 1 and x = 2]
    local_damage_hit_iff [where s = drawn_half and player = 0 and v = "1 / 2"
      and advance_counter_success = "\<lambda>t. t" and simple_damage_calculate = damage_3
      and damage_full_hp = "\<lambda>s m n. 0" and tech = 1 and usr = 0 and tgt = 1 and x = 1]
  by (simp add: LocalDamageEffect_apply_def py_float_def Let_def update_technique_def
        update_monster_def element_damage_key_def MULT_MAP_lookup
        drawn_half_def blank_state_def blank_npc_def blank_technique_def blank_monster_def
        damage_3_def)

section \<open>Choosing a technique\<close>

text \<open>With a positive \<^verbatim>\<open>max_moves\<close> the slice \<^verbatim>\<open>moves[-max_moves:]\<close> is the last
  \<^verbatim>\<open>max_moves\<close> moves (all of them when there are fewer).\<close>

lemma slice_from_last:
  "0 < n \<Longrightarrow> slice_from xs (- n) = drop (length xs - nat n) xs"
  by (auto simp: slice_from_def Let_def max_def nat_diff_distrib' intro: arg_cong [where f = "\<lambda>k. drop k xs"])







section \<open>Rewriting the targets of queued actions\<close>

text \<open>The loop over the indices changes the element at each index on its own, so it
  is a map over the queue.\<close>

lemma rewrite_fold_length:
  "length (fold (rewrite_step original new) [0..<n] q) = length q"
  by (induction n) (simp_all add: rewrite_step_def Let_def)

lemma rewrite_fold_nth:
  "n \<le> length q \<Longrightarrow> i < length q \<Longrightarrow>
   fold (rewrite_step original new) [0..<n] q ! i =
     (if i < n \<and> target (q ! i) = original
      then EnqueuedAction (user (q ! i)) (technique (q ! i)) new
      else q ! i)"
proof (induction n arbitrary: i)
  case 0
  then show ?case by simp
next
  case (Suc n)
  let ?p = "fold (rewrite_step original new) [0..<n] q"
  have len: "length ?p = length q" by (rule rewrite_fold_length)
  have n: "n < length q" using Suc.prems by simp
  have pn: "?p ! n = q ! n" using Suc.IH [of n] n by simp
  have pi: "?p ! i = (if i < n \<and> target (q ! i) = original
      then EnqueuedAction (user (q ! i)) (technique (q ! i)) new else q ! i)"
    using Suc.IH [of i] n Suc.prems by simp
  have step: "fold (rewrite_step original new) [0..<Suc n] q = rewrite_step original new n ?p"
    by simp
  show ?case
  proof (cases "i = n")
    case True
    then show ?thesis unfolding step using pn len n
      by (simp add: rewrite_step_def Let_def)
  next
    case False
    then show ?thesis unfolding step using pi len n Suc.prems
      by (auto simp: rewrite_step_def Let_def)
  qed
qed

lemma rewrite_queue_map:
  "action_queue (rewrite_action_queue_target original new s) =
     map (\<lambda>action. if target action = original
                     then EnqueuedAction (user action) (technique action) new else action)
       (action_queue s)"
  by (rule nth_equalityI)
     (simp_all add: rewrite_action_queue_target_def rewrite_fold_length rewrite_fold_nth)

text \<open>
  C9. \<^const>\<open>rewrite_action_queue_target\<close> changes nothing of the combat state but the
  queue; the queue keeps its length and order; at every position the user and the
  payload are unchanged and the target becomes \<open>new\<close> exactly when it was \<open>original\<close>,
  an action with another target being left as it is. After the rewrite no queued action
  targets \<open>original\<close> (when the two monsters differ), and the action
  \<^const>\<open>handle_action_queue\<close> takes next is the rewritten one: it is performed on \<open>new\<close>.
\<close>

theorem rewrite_action_queue_target_frame:
  "rewrite_action_queue_target original new s =
     s\<lparr>action_queue := action_queue (rewrite_action_queue_target original new s)\<rparr> \<and>
   length (action_queue (rewrite_action_queue_target original new s)) = length (action_queue s) \<and>
   (\<forall>i < length (action_queue s).
      user (action_queue (rewrite_action_queue_target original new s) ! i) = user (action_queue s ! i) \<and>
      technique (action_queue (rewrite_action_queue_target original new s) ! i)
        = technique (action_queue s ! i) \<and>
      target (action_queue (rewrite_action_queue_target original new s) ! i)
        = (if target (action_queue s ! i) = original then new else target (action_queue s ! i)) \<and>
      (target (action_queue s ! i) \<noteq> original \<longrightarrow>
         action_queue (rewrite_action_queue_target original new s) ! i = action_queue s ! i)) \<and>
   (original \<noteq> new \<longrightarrow>
      (\<forall>a \<in> set (action_queue (rewrite_action_queue_target original new s)). target a \<noteq> original)) \<and>
   (\<forall>a. fst (handle_action_queue s) = Some a \<longrightarrow>
      fst (handle_action_queue (rewrite_action_queue_target original new s))
        = Some (EnqueuedAction (user a) (technique a)
                  (if target a = original then new else target a)))"
proof (intro conjI allI impI)
  show "rewrite_action_queue_target original new s =
     s\<lparr>action_queue := action_queue (rewrite_action_queue_target original new s)\<rparr>"
    by (simp add: rewrite_action_queue_target_def)
next
  show "length (action_queue (rewrite_action_queue_target original new s)) = length (action_queue s)"
    by (simp add: rewrite_queue_map)
next
  fix i assume "i < length (action_queue s)"
  then show "user (action_queue (rewrite_action_queue_target original new s) ! i) = user (action_queue s ! i)"
    and "technique (action_queue (rewrite_action_queue_target original new s) ! i)
        = technique (action_queue s ! i)"
    and "target (action_queue (rewrite_action_queue_target original new s) ! i)
        = (if target (action_queue s ! i) = original then new else target (action_queue s ! i))"
    by (simp_all add: rewrite_queue_map)
next
  fix i assume "i < length (action_queue s)" "target (action_queue s ! i) \<noteq> original"
  then show "action_queue (rewrite_action_queue_target original new s) ! i = action_queue s ! i"
    by (simp add: rewrite_queue_map)
next
  assume "original \<noteq> new"
  then show "\<forall>a \<in> set (action_queue (rewrite_action_queue_target original new s)). target a \<noteq> original"
    by (auto simp: rewrite_queue_map)
next
  fix a assume "fst (handle_action_queue s) = Some a"
  then have ne: "action_queue s \<noteq> []" and a: "a = last (action_queue s)"
    by (auto simp: handle_action_queue_def split: if_splits)
  then show "fst (handle_action_queue (rewrite_action_queue_target original new s))
        = Some (EnqueuedAction (user a) (technique a)
                  (if target a = original then new else target a))"
    by (simp add: handle_action_queue_def rewrite_queue_map last_map)
qed


text \<open>In \<^const>\<open>two_attacks\<close> monster 0 is swapped out for monster 2: the action of
  monster 1 now targets monster 2, the action of monster 0 is untouched, and the next
  action executed is still monster 0's attack on monster 1.\<close>

theorem rewrite_action_queue_target_frame_witness:
  "(0::nat) \<noteq> 2 \<and> 0 < length (action_queue two_attacks) \<and>
   fst (handle_action_queue two_attacks) = Some attack_0 \<and>
   target (action_queue two_attacks ! 1) \<noteq> 0 \<and>
   action_queue (rewrite_action_queue_target 0 2 two_attacks) ! 1 = attack_0 \<and>
   user (action_queue (rewrite_action_queue_target 0 2 two_attacks) ! 0) = Some (MonsterUser 1) \<and>
   target (action_queue (rewrite_action_queue_target 0 2 two_attacks) ! 0) = 2 \<and>
   map target (action_queue (rewrite_action_queue_target 0 2 two_attacks)) = [2, 1] \<and>
   fst (handle_action_queue (rewrite_action_queue_target 0 2 two_attacks)) = Some attack_0"
  using rewrite_action_queue_target_frame [of 0 2 two_attacks]
  by (simp add: two_attacks_def attack_0_def attack_1_def handle_action_queue_def
      rewrite_queue_map)
section \<open>The current_hp condition\<close>

text \<open>
  C10. For each key of \<^const>\<open>cmp_dict\<close>, \<^const>\<open>test\<close> compares the current hit points
  with the product \<^verbatim>\<open>target.hp * v\<close> (as Python computes it, \<open>float_mul\<close>) when the
  value is a float \<open>v\<close>, and with \<open>i\<close> itself when it is an int \<open>i\<close>; an absent comparison
  means \<open>\<ge>\<close>; any other comparison raises KeyError. The product by \<^verbatim>\<open>1.0\<close> being the
  maximum itself, \<^verbatim>\<open>current_hp <,1.0\<close> holds exactly below full health, while the int
  1 is the absolute threshold 1.
\<close>

theorem current_hp_test_cases:
  "test float_mul \<lparr>comparison = k, cvalue = FloatValue v\<rparr> t =
     (if k = None \<or> k = Some ''>='' then Inr (of_int (current_hp t) \<ge> float_mul (hp t) v)
      else if k = Some ''<'' then Inr (of_int (current_hp t) < float_mul (hp t) v)
      else if k = Some ''<='' then Inr (of_int (current_hp t) \<le> float_mul (hp t) v)
      else if k = Some ''>'' then Inr (of_int (current_hp t) > float_mul (hp t) v)
      else if k = Some ''=='' \<or> k = Some ''='' then Inr (of_int (current_hp t) = float_mul (hp t) v)
      else Inl KeyError) \<and>
   test float_mul \<lparr>comparison = k, cvalue = IntValue i\<rparr> t =
     (if k = None \<or> k = Some ''>='' then Inr (current_hp t \<ge> i)
      else if k = Some ''<'' then Inr (current_hp t < i)
      else if k = Some ''<='' then Inr (current_hp t \<le> i)
      else if k = Some ''>'' then Inr (current_hp t > i)
      else if k = Some ''=='' \<or> k = Some ''='' then Inr (current_hp t = i)
      else Inl KeyError) \<and>
   (float_mul (hp t) 1 = of_int (hp t) \<longrightarrow>
      test float_mul \<lparr>comparison = Some ''<'', cvalue = FloatValue 1\<rparr> t = Inr (current_hp t < hp t)) \<and>
   test float_mul \<lparr>comparison = Some ''<'', cvalue = IntValue 1\<rparr> t = Inr (current_hp t < 1)"
  by (simp add: test_def cmp_dict_def Let_def)

text \<open>A monster at health 7 of 10 is below full health (\<^verbatim>\<open><,1.0\<close>) and not below
  the absolute threshold 1 (\<^verbatim>\<open><,1\<close>). A monster at health 1 of 5 passes
  \<^verbatim>\<open>>=,0.2\<close>, the product of doubles being \<^verbatim>\<open>1.0\<close>.\<close>

theorem current_hp_test_cases_witness:
  "product_5 (hp (blank_monster\<lparr>current_hp := 7\<rparr>)) 1 = of_int (hp (blank_monster\<lparr>current_hp := 7\<rparr>)) \<and>
   test product_5 \<lparr>comparison = Some ''<'', cvalue = FloatValue 1\<rparr> (blank_monster\<lparr>current_hp := 7\<rparr>)
     = Inr True \<and>
   test product_5 \<lparr>comparison = Some ''<'', cvalue = IntValue 1\<rparr> (blank_monster\<lparr>current_hp := 7\<rparr>)
     = Inr False \<and>
   test product_5 \<lparr>comparison = Some ''>='', cvalue = FloatValue double_0_2\<rparr>
       (blank_monster\<lparr>current_hp := 1, hp := 5\<rparr>)
     = Inr True"
  using current_hp_test_cases [of product_5 "Some ''<''" 1 "blank_monster\<lparr>current_hp := 7\<rparr>" 1]
    current_hp_test_cases [of product_5 "Some ''>=''" double_0_2 "blank_monster\<lparr>current_hp := 1, hp := 5\<rparr>" 1]
  by (simp add: product_5_def double_0_2_def blank_monster_def)

end
